theory Spec2Isabelle
  imports Main "HOL-Library.Sublist"
begin

section \<open>Strings as the program uses them\<close>

text \<open>
  The program is \<^verbatim>\<open>grocy_import.py\<close>. A Python \<^verbatim>\<open>str\<close> is modelled as a \<^typ>\<open>string\<close>,
  one \<^typ>\<open>char\<close> per code point; the model covers the code points below 256.
  \<^verbatim>\<open>str.isspace\<close> and the regular expression class \<^verbatim>\<open>\d\<close> are exact on that
  range. The case tables used by \<^verbatim>\<open>str.title\<close> are those of the letters below 256:
  the ASCII letters, the letters from U+00C0 to U+00FE (without the two signs U+00D7
  and U+00F7), and the cased characters without a partner below 256, which are U+00AA,
  U+00B5, U+00BA, U+00DF and U+00FF. The title-case form of U+00DF is the two
  characters \<^verbatim>\<open>Ss\<close>. The title-case forms of U+00B5 and of U+00FF are U+039C and
  U+0178, which are not below 256: the model leaves these two characters as they are,
  so \<open>title\<close> is exact on the strings that contain neither of them.
\<close>

definition isspace :: "char \<Rightarrow> bool" where
  "isspace c = (c \<in> set [CHR 0x09, CHR 0x0A, CHR 0x0B, CHR 0x0C, CHR 0x0D,
                          CHR 0x1C, CHR 0x1D, CHR 0x1E, CHR 0x1F, CHR 0x20,
                          CHR 0x85, CHR 0xA0])"

definition isdigit :: "char \<Rightarrow> bool" where
  "isdigit c = (c \<in> set ''0123456789'')"

definition upper_letters :: string where
  "upper_letters =
     ''ABCDEFGHIJKLMNOPQRSTUVWXYZ'' @
     [CHR 0xC0, CHR 0xC1, CHR 0xC2, CHR 0xC3, CHR 0xC4, CHR 0xC5, CHR 0xC6,
      CHR 0xC7, CHR 0xC8, CHR 0xC9, CHR 0xCA, CHR 0xCB, CHR 0xCC, CHR 0xCD,
      CHR 0xCE, CHR 0xCF, CHR 0xD0, CHR 0xD1, CHR 0xD2, CHR 0xD3, CHR 0xD4,
      CHR 0xD5, CHR 0xD6, CHR 0xD8, CHR 0xD9, CHR 0xDA, CHR 0xDB, CHR 0xDC,
      CHR 0xDD, CHR 0xDE]"

definition lower_letters :: string where
  "lower_letters =
     ''abcdefghijklmnopqrstuvwxyz'' @
     [CHR 0xE0, CHR 0xE1, CHR 0xE2, CHR 0xE3, CHR 0xE4, CHR 0xE5, CHR 0xE6,
      CHR 0xE7, CHR 0xE8, CHR 0xE9, CHR 0xEA, CHR 0xEB, CHR 0xEC, CHR 0xED,
      CHR 0xEE, CHR 0xEF, CHR 0xF0, CHR 0xF1, CHR 0xF2, CHR 0xF3, CHR 0xF4,
      CHR 0xF5, CHR 0xF6, CHR 0xF8, CHR 0xF9, CHR 0xFA, CHR 0xFB, CHR 0xFC,
      CHR 0xFD, CHR 0xFE]"

definition iscased :: "char \<Rightarrow> bool" where
  "iscased c =
     (c \<in> set upper_letters \<or> c \<in> set lower_letters
      \<or> c \<in> set [CHR 0xAA, CHR 0xB5, CHR 0xBA, CHR 0xDF, CHR 0xFF])"

definition title_char :: "char \<Rightarrow> string" where
  "title_char c =
     (if c = CHR 0xDF then ''Ss''
      else [case map_of (zip lower_letters upper_letters) c of Some u \<Rightarrow> u | None \<Rightarrow> c])"

definition lower_char :: "char \<Rightarrow> char" where
  "lower_char c = (case map_of (zip upper_letters lower_letters) c of Some l \<Rightarrow> l | None \<Rightarrow> c)"

text \<open>\<^verbatim>\<open>s.strip()\<close>: leading and trailing whitespace removed.\<close>

definition strip :: "string \<Rightarrow> string" where
  "strip s = rev (dropWhile isspace (rev (dropWhile isspace s)))"

text \<open>
  \<^verbatim>\<open>s.split(sep)\<close> for a one-character separator: the fields between the
  separators, never an empty list (\<^verbatim>\<open>"".split(":") == [""]\<close>). The second branch of
  the \<open>case\<close> is never taken (\<open>split_nonempty\<close> below).
\<close>

fun split :: "char \<Rightarrow> string \<Rightarrow> string list" where
  "split sep [] = [[]]"
| "split sep (c # cs) =
     (if c = sep then [] # split sep cs
      else (case split sep cs of w # ws \<Rightarrow> (c # w) # ws | [] \<Rightarrow> [[c]]))"

text \<open>\<^verbatim>\<open>s.replace(a, b)\<close> for one-character \<open>a\<close> and \<open>b\<close>.\<close>

definition replace :: "char \<Rightarrow> char \<Rightarrow> string \<Rightarrow> string" where
  "replace a b s = map (\<lambda>c. if c = a then b else c) s"

text \<open>
  \<^verbatim>\<open>s.title()\<close>: a character is replaced by its title-case form when the character
  before it is not cased (or there is none) and by its lower-case form otherwise.
\<close>

fun title_from :: "bool \<Rightarrow> string \<Rightarrow> string" where
  "title_from previous_is_cased [] = []"
| "title_from previous_is_cased (c # cs) =
     (if previous_is_cased then [lower_char c] else title_char c) @ title_from (iscased c) cs"

definition title :: "string \<Rightarrow> string" where
  "title s = title_from False s"

text \<open>Truth value of an optional string: \<^verbatim>\<open>None\<close> and \<^verbatim>\<open>""\<close> are false.\<close>

fun truthy :: "string option \<Rightarrow> bool" where
  "truthy None = False"
| "truthy (Some s) = (s \<noteq> [])"

text \<open>\<^verbatim>\<open>a or b\<close> on optional strings, and \<^verbatim>\<open>a or ""\<close>.\<close>

definition py_or :: "string option \<Rightarrow> string option \<Rightarrow> string option" where
  "py_or a b = (if truthy a then a else b)"

fun or_str :: "string option \<Rightarrow> string \<Rightarrow> string" where
  "or_str None d = d"
| "or_str (Some s) d = (if s \<noteq> [] then s else d)"

section \<open>The regular expression of \<^verbatim>\<open>valid_barcode\<close>\<close>

text \<open>
  The fragment of Python's \<^verbatim>\<open>re\<close> syntax that the pattern
  \<^verbatim>\<open>\d{8}|\d{12,14}\<close> uses, with a matcher by derivatives. \<^verbatim>\<open>re.fullmatch\<close> succeeds
  when the whole string is in the language of the pattern (the engine backtracks
  over every alternative and every repetition count).
\<close>

datatype regex =
    Never
  | Empty
  | Digit
  | Alt regex regex
  | Cat regex regex
  | Repeat nat nat regex

fun nullable :: "regex \<Rightarrow> bool" where
  "nullable Never = False"
| "nullable Empty = True"
| "nullable Digit = False"
| "nullable (Alt r s) = (nullable r \<or> nullable s)"
| "nullable (Cat r s) = (nullable r \<and> nullable s)"
| "nullable (Repeat m n r) = (m \<le> n \<and> (m = 0 \<or> nullable r))"

fun deriv :: "char \<Rightarrow> regex \<Rightarrow> regex" where
  "deriv c Never = Never"
| "deriv c Empty = Never"
| "deriv c Digit = (if isdigit c then Empty else Never)"
| "deriv c (Alt r s) = Alt (deriv c r) (deriv c s)"
| "deriv c (Cat r s) =
     (if nullable r then Alt (Cat (deriv c r) s) (deriv c s) else Cat (deriv c r) s)"
| "deriv c (Repeat m n r) =
     (if n = 0 \<or> n < m then Never else Cat (deriv c r) (Repeat (m - 1) (n - 1) r))"

definition fullmatch :: "regex \<Rightarrow> string \<Rightarrow> bool" where
  "fullmatch r s = nullable (fold deriv s r)"

definition barcode_pattern :: regex where
  "barcode_pattern = Alt (Repeat 8 8 Digit) (Repeat 12 14 Digit)"

section \<open>Records of the search service and rows\<close>

text \<open>
  A raw product of the search service is a JSON object; the program reads seven of its
  keys with \<^verbatim>\<open>p.get\<close>. \<open>None\<close> stands for a key that is missing or null.
\<close>

record product =
  product_name_de :: "string option"
  product_name :: "string option"
  categories_tags :: "string list option"
  code :: "string option"
  brands :: "string option"
  stores :: "string option"
  quantity :: "string option"

text \<open>
  A row is the dictionary that \<^verbatim>\<open>product_to_row\<close> builds. \<^verbatim>\<open>dedupe\<close> reads the key
  \<^verbatim>\<open>barcode\<close> with \<^verbatim>\<open>r.get\<close> and so accepts rows without it: that key is optional in
  the model, the other five are always present.
\<close>

record row =
  name :: string
  barcode :: "string option"
  brand :: string
  store :: string
  quantity :: string
  cat :: string

definition valid_barcode :: "string option \<Rightarrow> bool" where
  "valid_barcode c =
     (case c of None \<Rightarrow> False | Some s \<Rightarrow> s \<noteq> [] \<and> fullmatch barcode_pattern (strip s))"

definition normalize_name :: "product \<Rightarrow> string" where
  "normalize_name p =
     (let n = strip (or_str (py_or (product_name_de p) (product_name p)) []);
          n = (if n = [] then
                 (case (case categories_tags p of None \<Rightarrow> [] | Some ts \<Rightarrow> ts) of
                    [] \<Rightarrow> n
                  | t # _ \<Rightarrow> title (replace (CHR ''-'') (CHR '' '') (last (split (CHR '':'') t))))
               else n)
      in if n \<noteq> [] then n else ''Unbenanntes Produkt'')"

definition product_to_row :: "product \<Rightarrow> string option \<Rightarrow> row option" where
  "product_to_row p category =
     (case code p of
        None \<Rightarrow> None
      | Some c \<Rightarrow>
          if \<not> valid_barcode (Some c) then None
          else Some \<lparr> name = normalize_name p,
                      barcode = Some (strip c),
                      brand = strip (hd (split (CHR '','') (or_str (brands p) []))),
                      store = strip (hd (split (CHR '','') (or_str (stores p) []))),
                      quantity = or_str (product.quantity p) [],
                      cat = or_str category ''Unbekannt'' \<rparr>)"

section \<open>Deduplication\<close>

text \<open>
  \<^verbatim>\<open>dedupe\<close> runs over the rows with the set \<open>seen\<close> and the list \<open>out\<close>; one
  step is the body of its loop. \<^verbatim>\<open>if bc and bc not in seen\<close> skips a row whose
  barcode is missing or empty.
\<close>

definition dedupe_step :: "string set \<times> row list \<Rightarrow> row \<Rightarrow> string set \<times> row list" where
  "dedupe_step st r =
     (case st of (seen, out) \<Rightarrow>
        (case barcode r of
           None \<Rightarrow> (seen, out)
         | Some bc \<Rightarrow>
             if bc \<noteq> [] \<and> bc \<notin> seen then (insert bc seen, out @ [r]) else (seen, out)))"

definition dedupe :: "row list \<Rightarrow> row list" where
  "dedupe rows = snd (foldl dedupe_step ({}, []) rows)"

text \<open>\<^verbatim>\<open>xs[:n]\<close>: a negative \<open>n\<close> counts from the end.\<close>

definition slice_to :: "int \<Rightarrow> 'a list \<Rightarrow> 'a list" where
  "slice_to n xs = (if 0 \<le> n then take (nat n) xs else take (length xs - nat (- n)) xs)"

section \<open>The run: fetching, counting, truncating\<close>

definition CATEGORIES :: "string list" where
  "CATEGORIES =
     [''Getr'' @ [CHR 0xE4] @ ''nke'', ''Tiefk'' @ [CHR 0xFC] @ ''hlprodukte'', ''Backzutaten'',
      ''Grundnahrungsmittel'', ''Pasta und Reis'', ''Konserven'', ''Obst'',
      ''Gem'' @ [CHR 0xFC] @ ''se'', ''Internationale K'' @ [CHR 0xFC] @ ''che'',
      ''Hygiene'', ''Drogerie'', ''Putzmittel'', ''Haushaltswaren'']"

record stats =
  new :: nat
  skip :: nat
  imported :: nat

definition zero_stats :: stats where
  "zero_stats = \<lparr> new = 0, skip = 0, imported = 0 \<rparr>"

text \<open>
  The state of \<^verbatim>\<open>main\<close> from line 254 on. \<^verbatim>\<open>stats_cat\<close> is a \<^verbatim>\<open>defaultdict\<close>
  whose missing entries read as zero counters: a total function.
\<close>

record run =
  stats_total :: stats
  stats_cat :: "string \<Rightarrow> stats"
  all_rows :: "row list"

definition init_run :: run where
  "init_run = \<lparr> stats_total = zero_stats, stats_cat = (\<lambda>_. zero_stats), all_rows = [] \<rparr>"

datatype exn = KeyError | HTTPError | OtherException

text \<open>\<^verbatim>\<open>per_cat = max(10, limit // len(CATEGORIES))\<close>\<close>

definition per_cat :: "int \<Rightarrow> int" where
  "per_cat limit = max 10 (limit div int (length CATEGORIES))"

text \<open>
  The body of the inner loop of \<^verbatim>\<open>main\<close> (lines 262 to 276) for one product \<open>p\<close> of
  category \<open>c\<close>. \<^verbatim>\<open>r["barcode"]\<close> raises \<^verbatim>\<open>KeyError\<close> on a row without that key.
\<close>

definition intake :: "string set \<Rightarrow> string \<Rightarrow> run \<Rightarrow> product \<Rightarrow> exn + run" where
  "intake existing c s p =
     (case product_to_row p (Some c) of
        None \<Rightarrow>
          Inr (s\<lparr> stats_cat := (stats_cat s)(c := (stats_cat s c)\<lparr> skip := skip (stats_cat s c) + 1 \<rparr>) \<rparr>)
      | Some r \<Rightarrow>
          (case barcode r of
             None \<Rightarrow> Inl KeyError
           | Some bc \<Rightarrow>
               if bc \<in> existing then
                 Inr (s\<lparr> stats_cat := (stats_cat s)(c := (stats_cat s c)\<lparr> skip := skip (stats_cat s c) + 1 \<rparr>),
                         stats_total := (stats_total s)\<lparr> skip := skip (stats_total s) + 1 \<rparr> \<rparr>)
               else
                 Inr (s\<lparr> all_rows := all_rows s @ [r],
                         stats_cat := (stats_cat s)(c := (stats_cat s c)\<lparr> new := new (stats_cat s c) + 1 \<rparr>),
                         stats_total := (stats_total s)\<lparr> new := new (stats_total s) + 1 \<rparr> \<rparr>)))"

text \<open>\<^verbatim>\<open>for p in products\<close>; an exception leaves the loop.\<close>

fun intake_products :: "string set \<Rightarrow> string \<Rightarrow> product list \<Rightarrow> run \<Rightarrow> exn + run" where
  "intake_products existing c [] s = Inr s"
| "intake_products existing c (p # ps) s =
     (case intake existing c s p of
        Inl e \<Rightarrow> Inl e
      | Inr s' \<Rightarrow> intake_products existing c ps s')"

text \<open>
  \<^verbatim>\<open>for cat in CATEGORIES\<close>. \<open>fetch_category c n\<close> is the list that the call
  \<^verbatim>\<open>fetch_category(cat, limit=per_cat, ...)\<close> returns: the products of the search
  service's answer, or the empty list when the request failed (the function catches
  every exception). The search term and the page are drawn at random inside it.
\<close>

fun intake_categories ::
  "string set \<Rightarrow> (string \<Rightarrow> int \<Rightarrow> product list) \<Rightarrow> int \<Rightarrow> string list \<Rightarrow> run \<Rightarrow> exn + run" where
  "intake_categories existing fetch_category n [] s = Inr s"
| "intake_categories existing fetch_category n (c # cs) s =
     (case intake_products existing c (fetch_category c n) s of
        Inl e \<Rightarrow> Inl e
      | Inr s' \<Rightarrow> intake_categories existing fetch_category n cs s')"

text \<open>
  Lines 254 to 279 of \<^verbatim>\<open>main\<close>: the state after
  \<^verbatim>\<open>all_rows = dedupe(all_rows)[:limit]\<close>. These rows are then written to the CSV file.
\<close>

definition main_collect ::
  "string set \<Rightarrow> (string \<Rightarrow> int \<Rightarrow> product list) \<Rightarrow> int \<Rightarrow> exn + run" where
  "main_collect existing fetch_category limit =
     (case intake_categories existing fetch_category (per_cat limit) CATEGORIES init_run of
        Inl e \<Rightarrow> Inl e
      | Inr s \<Rightarrow> Inr (s\<lparr> all_rows := slice_to limit (dedupe (all_rows s)) \<rparr>))"

section \<open>The Grocy API\<close>

text \<open>
  The inventory server is a state \<open>'w\<close> that every request may change. A request gives
  the value that the Python expression around it evaluates to, or the exception it
  raises: \<open>HTTPError\<close> from \<^verbatim>\<open>raise_for_status\<close>, \<open>OtherException\<close> for anything else
  (no connection, a timeout, a body that is not the expected JSON).
\<close>

record payload =
  p_name :: string
  description :: string
  qu_id_stock :: int
  qu_id_purchase :: int
  location_id :: int
  min_stock_amount :: int

record 'w grocy_api =
  get_quantity_units :: "'w \<Rightarrow> (exn + (string \<times> int) list) \<times> 'w"
  post_quantity_units :: "string \<Rightarrow> 'w \<Rightarrow> (exn + int) \<times> 'w"
  get_locations :: "'w \<Rightarrow> (exn + (string \<times> int) list) \<times> 'w"
  post_locations :: "string \<Rightarrow> 'w \<Rightarrow> (exn + int) \<times> 'w"
  post_products :: "payload \<Rightarrow> 'w \<Rightarrow> (exn + int) \<times> 'w"
  post_product_barcodes :: "int \<Rightarrow> string \<Rightarrow> 'w \<Rightarrow> (exn + unit) \<times> 'w"

text \<open>
  \<^verbatim>\<open>ensure_unit\<close> and \<^verbatim>\<open>ensure_location\<close>: the id of the first listed entity with the
  name, else that of a new one. A listing is read as pairs of name and id.
\<close>

definition ensure_unit :: "'w grocy_api \<Rightarrow> string \<Rightarrow> 'w \<Rightarrow> (exn + int) \<times> 'w" where
  "ensure_unit api nm w =
     (case get_quantity_units api w of
        (Inl e, w1) \<Rightarrow> (Inl e, w1)
      | (Inr us, w1) \<Rightarrow>
          (case find (\<lambda>u. fst u = nm) us of
             Some u \<Rightarrow> (Inr (snd u), w1)
           | None \<Rightarrow> post_quantity_units api nm w1))"

definition ensure_location :: "'w grocy_api \<Rightarrow> string \<Rightarrow> 'w \<Rightarrow> (exn + int) \<times> 'w" where
  "ensure_location api nm w =
     (case get_locations api w of
        (Inl e, w1) \<Rightarrow> (Inl e, w1)
      | (Inr ls, w1) \<Rightarrow>
          (case find (\<lambda>l. fst l = nm) ls of
             Some l \<Rightarrow> (Inr (snd l), w1)
           | None \<Rightarrow> post_locations api nm w1))"

text \<open>
  \<^verbatim>\<open>create_product\<close>: two requests inside \<^verbatim>\<open>try\<close>, and
  \<^verbatim>\<open>except requests.HTTPError: return None\<close>. Any other exception leaves the function.
\<close>

definition create_product ::
  "'w grocy_api \<Rightarrow> row \<Rightarrow> int \<Rightarrow> int \<Rightarrow> 'w \<Rightarrow> (exn + int option) \<times> 'w" where
  "create_product api r qu_id loc_id w =
     (case post_products api
             \<lparr> p_name = name r,
               description = strip (brand r @ '' '' @ quantity r),
               qu_id_stock = qu_id,
               qu_id_purchase = qu_id,
               location_id = loc_id,
               min_stock_amount = 0 \<rparr> w of
        (Inl e, w1) \<Rightarrow> if e = HTTPError then (Inr None, w1) else (Inl e, w1)
      | (Inr pid, w1) \<Rightarrow>
          (case barcode r of
             None \<Rightarrow> (Inl KeyError, w1)
           | Some bc \<Rightarrow>
               (case post_product_barcodes api pid bc w1 of
                  (Inl e, w2) \<Rightarrow> if e = HTTPError then (Inr None, w2) else (Inl e, w2)
                | (Inr _, w2) \<Rightarrow> (Inr (Some pid), w2))))"

text \<open>
  Lines 290 to 294: \<^verbatim>\<open>if api.create_product(r, qu, loc)\<close> is true for an id other
  than zero.
\<close>

fun import_rows ::
  "'w grocy_api \<Rightarrow> int \<Rightarrow> int \<Rightarrow> row list \<Rightarrow> run \<Rightarrow> 'w \<Rightarrow> (exn + run) \<times> 'w" where
  "import_rows api qu loc [] s w = (Inr s, w)"
| "import_rows api qu loc (r # rs) s w =
     (case create_product api r qu loc w of
        (Inl e, w') \<Rightarrow> (Inl e, w')
      | (Inr res, w') \<Rightarrow>
          import_rows api qu loc rs
            (if res \<noteq> None \<and> res \<noteq> Some 0 then
               s\<lparr> stats_total := (stats_total s)\<lparr> imported := imported (stats_total s) + 1 \<rparr>,
                  stats_cat := (stats_cat s)
                    (cat r := (stats_cat s (cat r))\<lparr> imported := imported (stats_cat s (cat r)) + 1 \<rparr>) \<rparr>
             else s) w')"

text \<open>Lines 286 to 294: the import, when it is requested and there are rows.\<close>

definition main_import :: "'w grocy_api \<Rightarrow> bool \<Rightarrow> run \<Rightarrow> 'w \<Rightarrow> (exn + run) \<times> 'w" where
  "main_import api do_import s w =
     (if do_import \<and> all_rows s \<noteq> [] then
        (case ensure_unit api (''St'' @ [CHR 0xFC] @ ''ck'') w of
           (Inl e, w1) \<Rightarrow> (Inl e, w1)
         | (Inr qu, w1) \<Rightarrow>
             (case ensure_location api ''Vorrat'' w1 of
                (Inl e, w2) \<Rightarrow> (Inl e, w2)
              | (Inr loc, w2) \<Rightarrow> import_rows api qu loc (all_rows s) s w2))
      else (Inr s, w))"

text \<open>
  \<^verbatim>\<open>main\<close> from line 254 to the summary: the counters and the rows written, or the
  exception that ends the run, with the state the server is left in.
\<close>

definition main ::
  "'w grocy_api \<Rightarrow> string set \<Rightarrow> (string \<Rightarrow> int \<Rightarrow> product list) \<Rightarrow> int \<Rightarrow> bool \<Rightarrow> 'w
     \<Rightarrow> (exn + run) \<times> 'w" where
  "main api existing fetch_category limit do_import w =
     (case main_collect existing fetch_category limit of
        Inl e \<Rightarrow> (Inl e, w)
      | Inr s \<Rightarrow> main_import api do_import s w)"

section \<open>The accepted rows as the specification words them\<close>

text \<open>
  These three definitions are not translated from the program: they restate the
  specification, and the theorems below compare the program with them.
  \<open>spec_candidate_rows\<close> are the rows of the valid records in the order in which they
  are fetched; \<open>spec_first_accepted\<close> keeps of a list of rows those whose identifier is
  not in the snapshot and does not occur at an earlier position of the list;
  \<open>spec_invalid_count\<close> counts the fetched records whose identifier is invalid.
\<close>

definition known :: "string set \<Rightarrow> row \<Rightarrow> bool" where
  "known existing r = (case barcode r of None \<Rightarrow> False | Some bc \<Rightarrow> bc \<in> existing)"

definition spec_candidate_rows :: "(string \<Rightarrow> int \<Rightarrow> product list) \<Rightarrow> int \<Rightarrow> row list" where
  "spec_candidate_rows fetch_category n =
     concat (map (\<lambda>c. List.map_filter (\<lambda>p. product_to_row p (Some c)) (fetch_category c n))
               CATEGORIES)"

definition spec_first_accepted :: "string set \<Rightarrow> row list \<Rightarrow> row list" where
  "spec_first_accepted existing rows =
     map (\<lambda>i. rows ! i)
       (filter (\<lambda>i. \<not> known existing (rows ! i)
                    \<and> list_all (\<lambda>j. barcode (rows ! j) \<noteq> barcode (rows ! i)) [0..<i])
          [0..<length rows])"


text \<open>The sum of one counter over the categories.\<close>

definition per_category_sum :: "(stats \<Rightarrow> nat) \<Rightarrow> run \<Rightarrow> nat" where
  "per_category_sum counter s = sum_list (map (\<lambda>c. counter (stats_cat s c)) CATEGORIES)"


section \<open>Example inputs\<close>

definition ex_row :: "string \<Rightarrow> string option \<Rightarrow> row" where
  "ex_row n b = \<lparr> name = n, barcode = b, brand = [], store = [], quantity = [], cat = ''Obst'' \<rparr>"

definition ex_product :: "string \<Rightarrow> string \<Rightarrow> product" where
  "ex_product n c =
     \<lparr> product_name_de = None, product_name = Some n, categories_tags = None, code = Some c,
       brands = None, stores = None, quantity = None \<rparr>"

text \<open>A search service that answers for the category Obst only.\<close>

definition ex_fetch :: "product list \<Rightarrow> string \<Rightarrow> int \<Rightarrow> product list" where
  "ex_fetch ps c n = (if c = ''Obst'' then ps else [])"

text \<open>
  An inventory server that keeps the names of the products it created. Every request
  for a product gets the same answer; the request that attaches the barcode \<open>bad\<close>
  raises \<open>e\<close>.
\<close>

definition ex_api :: "exn + int \<Rightarrow> string \<Rightarrow> exn \<Rightarrow> string list grocy_api" where
  "ex_api product_answer bad e =
     \<lparr> get_quantity_units = (\<lambda>w. (Inr [(''St'' @ [CHR 0xFC] @ ''ck'', 1)], w)),
       post_quantity_units = (\<lambda>n w. (Inr 1, w)),
       get_locations = (\<lambda>w. (Inr [], w)),
       post_locations = (\<lambda>n w. (Inr 2, w)),
       post_products = (\<lambda>p w. (product_answer, case product_answer of Inl _ \<Rightarrow> w | Inr _ \<Rightarrow> w @ [p_name p])),
       post_product_barcodes = (\<lambda>pid bc w. (if bc = bad then Inl e else Inr (), w)) \<rparr>"

definition ex_tagged :: "string \<Rightarrow> product" where
  "ex_tagged t =
     \<lparr> product_name_de = None, product_name = None, categories_tags = Some [t], code = None,
       brands = None, stores = None, quantity = None \<rparr>"

section \<open>Facts about strings and the pattern\<close>

lemma split_nonempty: "split sep s \<noteq> []"
  by (induction s) (auto split: list.splits)

lemma length_CATEGORIES: "length CATEGORIES = 13"
  by (simp add: CATEGORIES_def)



lemma fullmatch_Alt: "fullmatch (Alt r s) w = (fullmatch r w \<or> fullmatch s w)"
  unfolding fullmatch_def by (induction w arbitrary: r s) auto

lemma fullmatch_Never: "\<not> fullmatch Never w"
  unfolding fullmatch_def by (induction w) auto

lemma fullmatch_Cat_Never: "\<not> fullmatch (Cat Never r) w"
  unfolding fullmatch_def by (induction w) auto

lemma fullmatch_Cat_Empty: "fullmatch (Cat Empty r) w = fullmatch r w"
proof (cases w)
  case Nil
  then show ?thesis by (simp add: fullmatch_def)
next
  case (Cons c cs)
  have "fullmatch (Cat Empty r) (c # cs) = fullmatch (Alt (Cat Never r) (deriv c r)) cs"
    by (simp add: fullmatch_def)
  also have "\<dots> = fullmatch (deriv c r) cs"
    by (simp add: fullmatch_Alt fullmatch_Cat_Never)
  also have "\<dots> = fullmatch r (c # cs)"
    by (simp add: fullmatch_def)
  finally show ?thesis using Cons by simp
qed

lemma fullmatch_Repeat_Digit:
  "fullmatch (Repeat m n Digit) w = (m \<le> length w \<and> length w \<le> n \<and> list_all isdigit w)"
proof (induction w arbitrary: m n)
  case Nil
  then show ?case by (auto simp: fullmatch_def)
next
  case (Cons c w)
  have step: "fullmatch (Repeat m n Digit) (c # w) = fullmatch (deriv c (Repeat m n Digit)) w"
    by (simp add: fullmatch_def)
  show ?case
  proof (cases "n = 0 \<or> n < m")
    case True
    then show ?thesis using step fullmatch_Never by auto
  next
    case False
    then show ?thesis
      using step Cons.IH[of "m - 1" "n - 1"] fullmatch_Cat_Never fullmatch_Cat_Empty by auto
  qed
qed

lemma fullmatch_barcode_pattern:
  "fullmatch barcode_pattern w =
     (list_all isdigit w \<and> (length w = 8 \<or> (12 \<le> length w \<and> length w \<le> 14)))"
  by (auto simp: barcode_pattern_def fullmatch_Alt fullmatch_Repeat_Digit)

lemma intake_categories_only_count:
  "intake_categories existing (\<lambda>c m. if m = n then f c m else []) n cs s =
   intake_categories existing f n cs s"
  by (induction cs arbitrary: s) (auto split: sum.splits)

section \<open>Identifier validation\<close>



section \<open>The share of the limit that each category is asked for\<close>

text \<open>
  C8. For every limit \<open>L\<close> the number of results requested per category is
  \<open>max 10 (L div 13)\<close>, with the integer division that rounds down, 13 being the length
  of \<^verbatim>\<open>CATEGORIES\<close>; it is never below 10. The run reads the answers of
  \<^verbatim>\<open>fetch_category\<close> for that count only.
\<close>

theorem per_cat_share:
  "per_cat L = max 10 (L div 13) \<and> length CATEGORIES = 13 \<and> 10 \<le> per_cat L
   \<and> main_collect existing (\<lambda>c m. if m = per_cat L then fetch_category c m else []) L =
       main_collect existing fetch_category L"
  by (simp add: per_cat_def length_CATEGORIES main_collect_def intake_categories_only_count)

section \<open>Deduplication keeps the first row of every identifier\<close>

lemma dedupe_step_pair:
  "dedupe_step (seen, out) r =
     (case barcode r of
        None \<Rightarrow> (seen, out)
      | Some bc \<Rightarrow>
          if bc \<noteq> [] \<and> bc \<notin> seen then (insert bc seen, out @ [r]) else (seen, out))"
  by (simp add: dedupe_step_def)

lemma dedupe_seen:
  "fst (foldl dedupe_step ({}, []) rows) = {b. b \<noteq> [] \<and> Some b \<in> barcode ` set rows}"
proof (induction rows rule: rev_induct)
  case Nil
  then show ?case by simp
next
  case (snoc r rows)
  obtain seen out where st: "foldl dedupe_step ({}, []) rows = (seen, out)"
    by (cases "foldl dedupe_step ({}, []) rows")
  with snoc have seen: "seen = {b. b \<noteq> [] \<and> Some b \<in> barcode ` set rows}" by simp
  show ?case
  proof (cases "barcode r")
    case None
    then show ?thesis using st seen by (auto simp: dedupe_step_pair)
  next
    case (Some bc)
    then show ?thesis using st seen by (force simp: dedupe_step_pair)
  qed
qed

lemma dedupe_Nil: "dedupe [] = []"
  by (simp add: dedupe_def)

lemma dedupe_snoc:
  "dedupe (rows @ [r]) =
     dedupe rows @
       (if barcode r \<noteq> None \<and> barcode r \<noteq> Some [] \<and> barcode r \<notin> barcode ` set rows
        then [r] else [])"
proof -
  obtain seen out where st: "foldl dedupe_step ({}, []) rows = (seen, out)"
    by (cases "foldl dedupe_step ({}, []) rows")
  have seen: "seen = {b. b \<noteq> [] \<and> Some b \<in> barcode ` set rows}"
    using dedupe_seen [of rows] st by simp
  show ?thesis
  proof (cases "barcode r")
    case None
    then show ?thesis using st by (simp add: dedupe_def dedupe_step_pair)
  next
    case (Some bc)
    then show ?thesis using st seen by (auto simp: dedupe_def dedupe_step_pair)
  qed
qed

lemma find_snoc:
  "find P (xs @ [x]) = (case find P xs of Some y \<Rightarrow> Some y | None \<Rightarrow> if P x then Some x else None)"
  by (induction xs) auto

lemma dedupe_barcodes:
  "b \<in> barcode ` set (dedupe rows) \<longleftrightarrow> b \<in> barcode ` set rows \<and> b \<noteq> None \<and> b \<noteq> Some []"
proof (induction rows rule: rev_induct)
  case Nil
  then show ?case by (simp add: dedupe_Nil)
next
  case (snoc r rows)
  show ?case
  proof (cases "barcode r \<noteq> None \<and> barcode r \<noteq> Some [] \<and> barcode r \<notin> barcode ` set rows")
    case True
    then have "dedupe (rows @ [r]) = dedupe rows @ [r]" by (simp add: dedupe_snoc)
    then show ?thesis using snoc True by (auto simp: image_Un)
  next
    case False
    then have "dedupe (rows @ [r]) = dedupe rows" by (simp add: dedupe_snoc)
    then show ?thesis using snoc False by (auto simp: image_Un)
  qed
qed

lemma dedupe_subset: "set (dedupe rows) \<subseteq> set rows"
  by (induction rows rule: rev_induct) (auto simp: dedupe_Nil dedupe_snoc)

lemma dedupe_distinct: "distinct (map barcode (dedupe rows))"
proof (induction rows rule: rev_induct)
  case Nil
  then show ?case by (simp add: dedupe_Nil)
next
  case (snoc r rows)
  have "barcode r \<notin> barcode ` set rows \<Longrightarrow> barcode r \<notin> barcode ` set (dedupe rows)"
    using dedupe_subset [of rows] by auto
  with snoc show ?case by (auto simp: dedupe_snoc)
qed

lemma dedupe_subseq: "subseq (dedupe rows) rows"
proof (induction rows rule: rev_induct)
  case Nil
  then show ?case by (simp add: dedupe_Nil)
next
  case (snoc r rows)
  then show ?case
    by (auto simp: dedupe_snoc intro: subseq_rev_drop_many list_emb_append_mono)
qed

lemma dedupe_first:
  "x \<in> set (dedupe rows) \<Longrightarrow> find (\<lambda>y. barcode y = barcode x) rows = Some x"
proof (induction rows rule: rev_induct)
  case Nil
  then show ?case by (simp add: dedupe_Nil)
next
  case (snoc r rows)
  show ?case
  proof (cases "x \<in> set (dedupe rows)")
    case True
    with snoc.IH show ?thesis by (simp add: find_snoc)
  next
    case False
    with snoc.prems have x: "x = r" and new: "barcode r \<notin> barcode ` set rows"
      by (auto simp: dedupe_snoc split: if_splits)
    from new have "find (\<lambda>y. barcode y = barcode r) rows = None"
      unfolding find_None_iff by (metis imageI)
    with x show ?thesis by (simp add: find_snoc)
  qed
qed

text \<open>
  C4. For every list of rows, the identifiers of the rows that \<^verbatim>\<open>dedupe\<close> returns are
  pairwise different; each returned row is the first row of the input with its
  identifier; the returned rows stand in the order of the input (they are a
  subsequence of it); no returned row has a missing or an empty identifier; and every
  identifier of the input that is neither missing nor empty is kept.
\<close>

theorem dedupe_first_per_identifier:
  "distinct (map barcode (dedupe rows))
   \<and> (\<forall>x \<in> set (dedupe rows). find (\<lambda>y. barcode y = barcode x) rows = Some x)
   \<and> subseq (dedupe rows) rows
   \<and> (\<forall>x \<in> set (dedupe rows). barcode x \<noteq> None \<and> barcode x \<noteq> Some [])
   \<and> (\<forall>x \<in> set rows. barcode x \<noteq> None \<and> barcode x \<noteq> Some [] \<longrightarrow>
         barcode x \<in> barcode ` set (dedupe rows))"
proof -
  have "\<forall>x \<in> set (dedupe rows). barcode x \<noteq> None \<and> barcode x \<noteq> Some []"
    using dedupe_barcodes [of _ rows] by blast
  moreover have "\<forall>x \<in> set rows. barcode x \<noteq> None \<and> barcode x \<noteq> Some [] \<longrightarrow>
         barcode x \<in> barcode ` set (dedupe rows)"
    using dedupe_barcodes [of _ rows] by blast
  ultimately show ?thesis
    using dedupe_distinct dedupe_subseq dedupe_first by blast
qed

theorem dedupe_first_per_identifier_witness:
  "dedupe [ex_row ''a'' (Some ''40123456''), ex_row ''b'' None, ex_row ''c'' (Some []),
           ex_row ''d'' (Some ''40123456''), ex_row ''e'' (Some ''12345678'')] =
     [ex_row ''a'' (Some ''40123456''), ex_row ''e'' (Some ''12345678'')]
   \<and> find (\<lambda>y. barcode y = Some ''40123456'')
        [ex_row ''a'' (Some ''40123456''), ex_row ''b'' None, ex_row ''c'' (Some []),
         ex_row ''d'' (Some ''40123456''), ex_row ''e'' (Some ''12345678'')] =
       Some (ex_row ''a'' (Some ''40123456''))
   \<and> subseq [ex_row ''a'' (Some ''40123456''), ex_row ''e'' (Some ''12345678'')]
        [ex_row ''a'' (Some ''40123456''), ex_row ''b'' None, ex_row ''c'' (Some []),
         ex_row ''d'' (Some ''40123456''), ex_row ''e'' (Some ''12345678'')]"
  using dedupe_first_per_identifier
    [of "[ex_row ''a'' (Some ''40123456''), ex_row ''b'' None, ex_row ''c'' (Some []),
          ex_row ''d'' (Some ''40123456''), ex_row ''e'' (Some ''12345678'')]"]
  by (simp add: dedupe_def dedupe_step_pair ex_row_def)

section \<open>The rows that a run accepts and writes\<close>

lemma product_to_row_Some:
  "product_to_row p (Some c) = Some r \<Longrightarrow>
     valid_barcode (code p) \<and> (\<exists>b. barcode r = Some b \<and> b \<noteq> []) \<and> cat r = or_str (Some c) ''Unbekannt''"
  by (auto simp: product_to_row_def valid_barcode_def fullmatch_barcode_pattern
      split: option.splits if_splits)


lemma intake_rows:
  "\<exists>s'. intake existing c s p = Inr s' \<and>
        all_rows s' = all_rows s @
          (case product_to_row p (Some c) of
             None \<Rightarrow> []
           | Some r \<Rightarrow> if known existing r then [] else [r])"
proof (cases "product_to_row p (Some c)")
  case None
  then show ?thesis by (simp add: intake_def)
next
  case (Some r)
  then obtain b where "barcode r = Some b" using product_to_row_Some by blast
  with Some show ?thesis by (simp add: intake_def known_def)
qed

lemma intake_products_rows:
  "\<exists>s'. intake_products existing c ps s = Inr s' \<and>
        all_rows s' = all_rows s @
          filter (\<lambda>r. \<not> known existing r) (List.map_filter (\<lambda>p. product_to_row p (Some c)) ps)"
proof (induction ps arbitrary: s)
  case Nil
  then show ?case by (simp add: List.map_filter_simps)
next
  case (Cons p ps)
  obtain s1 where s1: "intake existing c s p = Inr s1"
    and r1: "all_rows s1 = all_rows s @
          (case product_to_row p (Some c) of
             None \<Rightarrow> []
           | Some r \<Rightarrow> if known existing r then [] else [r])"
    using intake_rows by blast
  from Cons.IH [of s1] obtain s' where "intake_products existing c ps s1 = Inr s'"
    and "all_rows s' = all_rows s1 @
          filter (\<lambda>r. \<not> known existing r) (List.map_filter (\<lambda>p. product_to_row p (Some c)) ps)"
    by blast
  with s1 r1 show ?case
    by (auto simp: List.map_filter_simps split: option.splits)
qed

lemma intake_categories_rows:
  "\<exists>s'. intake_categories existing f n cs s = Inr s' \<and>
        all_rows s' = all_rows s @
          filter (\<lambda>r. \<not> known existing r)
            (concat (map (\<lambda>c. List.map_filter (\<lambda>p. product_to_row p (Some c)) (f c n)) cs))"
proof (induction cs arbitrary: s)
  case Nil
  then show ?case by simp
next
  case (Cons c cs)
  obtain s1 where s1: "intake_products existing c (f c n) s = Inr s1"
    and r1: "all_rows s1 = all_rows s @
          filter (\<lambda>r. \<not> known existing r) (List.map_filter (\<lambda>p. product_to_row p (Some c)) (f c n))"
    using intake_products_rows by blast
  from Cons.IH [of s1] obtain s' where "intake_categories existing f n cs s1 = Inr s'"
    and "all_rows s' = all_rows s1 @
          filter (\<lambda>r. \<not> known existing r)
            (concat (map (\<lambda>c. List.map_filter (\<lambda>p. product_to_row p (Some c)) (f c n)) cs))"
    by blast
  with s1 r1 show ?case by auto
qed

lemma spec_first_accepted_Nil: "spec_first_accepted existing [] = []"
  by (simp add: spec_first_accepted_def)

lemma spec_first_accepted_snoc:
  "spec_first_accepted existing (rows @ [r]) =
     spec_first_accepted existing rows @
       (if \<not> known existing r \<and> barcode r \<notin> barcode ` set rows then [r] else [])"
proof -
  have old: "filter (\<lambda>i. \<not> known existing ((rows @ [r]) ! i)
                    \<and> list_all (\<lambda>j. barcode ((rows @ [r]) ! j) \<noteq> barcode ((rows @ [r]) ! i)) [0..<i])
          [0..<length rows] =
        filter (\<lambda>i. \<not> known existing (rows ! i)
                    \<and> list_all (\<lambda>j. barcode (rows ! j) \<noteq> barcode (rows ! i)) [0..<i])
          [0..<length rows]"
    by (rule filter_cong) (auto simp: nth_append list_all_iff)
  have last: "list_all (\<lambda>j. barcode ((rows @ [r]) ! j) \<noteq> barcode r) [0..<length rows]
      \<longleftrightarrow> barcode r \<notin> barcode ` set rows"
  proof -
    have "list_all (\<lambda>j. barcode ((rows @ [r]) ! j) \<noteq> barcode r) [0..<length rows]
        \<longleftrightarrow> (\<forall>j<length rows. barcode (rows ! j) \<noteq> barcode r)"
      by (auto simp: list_all_iff nth_append)
    also have "\<dots> \<longleftrightarrow> (\<forall>x \<in> set rows. barcode x \<noteq> barcode r)"
      by (simp add: all_set_conv_all_nth)
    also have "\<dots> \<longleftrightarrow> barcode r \<notin> barcode ` set rows"
      unfolding image_iff by metis
    finally show ?thesis .
  qed
  have "spec_first_accepted existing (rows @ [r]) =
      map (\<lambda>i. (rows @ [r]) ! i)
       (filter (\<lambda>i. \<not> known existing (rows ! i)
                    \<and> list_all (\<lambda>j. barcode (rows ! j) \<noteq> barcode (rows ! i)) [0..<i])
          [0..<length rows]) @
       (if \<not> known existing r \<and> barcode r \<notin> barcode ` set rows then [r] else [])"
    using old last by (simp add: spec_first_accepted_def)
  moreover have "map (\<lambda>i. (rows @ [r]) ! i)
       (filter (\<lambda>i. \<not> known existing (rows ! i)
                    \<and> list_all (\<lambda>j. barcode (rows ! j) \<noteq> barcode (rows ! i)) [0..<i])
          [0..<length rows]) = spec_first_accepted existing rows"
    unfolding spec_first_accepted_def by (rule map_cong) (auto simp: nth_append)
  ultimately show ?thesis by simp
qed

lemma dedupe_filter_unknown:
  "\<forall>r \<in> set rows. barcode r \<noteq> None \<and> barcode r \<noteq> Some [] \<Longrightarrow>
     dedupe (filter (\<lambda>r. \<not> known existing r) rows) = spec_first_accepted existing rows"
proof (induction rows rule: rev_induct)
  case Nil
  then show ?case by (simp add: dedupe_Nil spec_first_accepted_Nil)
next
  case (snoc r rows)
  then have IH: "dedupe (filter (\<lambda>r. \<not> known existing r) rows) = spec_first_accepted existing rows"
    and ok: "barcode r \<noteq> None" "barcode r \<noteq> Some []"
    by auto
  show ?case
  proof (cases "known existing r")
    case True
    then show ?thesis using IH by (simp add: spec_first_accepted_snoc)
  next
    case False
    have "barcode r \<in> barcode ` set (filter (\<lambda>r. \<not> known existing r) rows)
        \<longleftrightarrow> barcode r \<in> barcode ` set rows"
    proof
      assume "barcode r \<in> barcode ` set rows"
      then obtain x where x: "x \<in> set rows" "barcode x = barcode r" by auto
      with False have "\<not> known existing x" by (simp add: known_def)
      with x have "x \<in> set (filter (\<lambda>r. \<not> known existing r) rows)" by simp
      with x show "barcode r \<in> barcode ` set (filter (\<lambda>r. \<not> known existing r) rows)"
        by (metis imageI)
    qed auto
    with False ok IH show ?thesis
      by (simp add: spec_first_accepted_snoc dedupe_snoc)
  qed
qed

lemma set_map_filter: "r \<in> set (List.map_filter g xs) \<longleftrightarrow> (\<exists>x \<in> set xs. g x = Some r)"
  by (induction xs) (auto simp: List.map_filter_simps split: option.splits)

lemma candidate_rows_barcodes:
  "\<forall>r \<in> set (spec_candidate_rows f n). barcode r \<noteq> None \<and> barcode r \<noteq> Some []"
proof
  fix r assume "r \<in> set (spec_candidate_rows f n)"
  then obtain c p where "product_to_row p (Some c) = Some r"
    by (auto simp: spec_candidate_rows_def set_map_filter)
  then show "barcode r \<noteq> None \<and> barcode r \<noteq> Some []"
    using product_to_row_Some by fastforce
qed

lemma ex_rows_eval:
  "product_to_row (ex_product ''Apfel'' ''40123456'') (Some ''Obst'') =
     Some \<lparr> name = ''Apfel'', barcode = Some ''40123456'', brand = [], store = [], quantity = [], cat = ''Obst'' \<rparr>"
  "product_to_row (ex_product ''Birne'' ''4006381333931'') (Some ''Obst'') =
     Some \<lparr> name = ''Birne'', barcode = Some ''4006381333931'', brand = [], store = [], quantity = [], cat = ''Obst'' \<rparr>"
  "product_to_row (ex_product ''Apfel rot'' '' 40123456 '') (Some ''Obst'') =
     Some \<lparr> name = ''Apfel rot'', barcode = Some ''40123456'', brand = [], store = [], quantity = [], cat = ''Obst'' \<rparr>"
  "product_to_row (ex_product ''Kiwi'' ''123'') (Some ''Obst'') = None"
  by (simp_all add: product_to_row_def ex_product_def valid_barcode_def fullmatch_barcode_pattern
      strip_def isspace_def isdigit_def normalize_name_def py_or_def)

lemma intake_categories_ex_fetch:
  "intake_categories existing (ex_fetch ps) n CATEGORIES s = intake_products existing ''Obst'' ps s"
  by (simp add: CATEGORIES_def ex_fetch_def split: sum.splits)

text \<open>
  C1, as amended. For every run with a limit \<open>L\<close> that is not negative, the rows written
  are the first \<open>L\<close> (all, when there are fewer) of the rows that are valid, whose
  identifier is not in the snapshot of known identifiers, and that are the first
  occurrence of their identifier in the run, in the order in which they were accepted;
  so their number is at most \<open>L\<close>.
\<close>

theorem collect_rows_nonneg_limit:
  "0 \<le> L \<Longrightarrow>
     \<exists>s. main_collect existing fetch_category L = Inr s
        \<and> all_rows s =
            take (nat L) (spec_first_accepted existing (spec_candidate_rows fetch_category (per_cat L)))
        \<and> int (length (all_rows s)) \<le> L"
proof -
  assume L: "0 \<le> L"
  obtain s' where s': "intake_categories existing fetch_category (per_cat L) CATEGORIES init_run = Inr s'"
    and rows: "all_rows s' = all_rows init_run @
          filter (\<lambda>r. \<not> known existing r)
            (concat (map (\<lambda>c. List.map_filter (\<lambda>p. product_to_row p (Some c))
                                 (fetch_category c (per_cat L))) CATEGORIES))"
    using intake_categories_rows by blast
  from rows have "all_rows s' =
      filter (\<lambda>r. \<not> known existing r) (spec_candidate_rows fetch_category (per_cat L))"
    by (simp add: init_run_def spec_candidate_rows_def)
  then have "dedupe (all_rows s') =
      spec_first_accepted existing (spec_candidate_rows fetch_category (per_cat L))"
    using dedupe_filter_unknown [OF candidate_rows_barcodes] by simp
  with s' L show ?thesis
    by (simp add: main_collect_def slice_to_def)
qed

theorem collect_rows_nonneg_limit_witness:
  "(0::int) \<le> 1
   \<and> map_sum id all_rows
        (main_collect {''4006381333931''}
           (ex_fetch [ex_product ''Kiwi'' ''123'', ex_product ''Birne'' ''4006381333931'',
                      ex_product ''Apfel'' ''40123456'', ex_product ''Apfel rot'' '' 40123456 '']) 1) =
       Inr [ex_row ''Apfel'' (Some ''40123456'')]
   \<and> take (nat 1)
        (spec_first_accepted {''4006381333931''}
           (spec_candidate_rows
              (ex_fetch [ex_product ''Kiwi'' ''123'', ex_product ''Birne'' ''4006381333931'',
                         ex_product ''Apfel'' ''40123456'', ex_product ''Apfel rot'' '' 40123456 ''])
              (per_cat 1))) =
       [ex_row ''Apfel'' (Some ''40123456'')]"
proof -
  have run: "map_sum id all_rows
        (main_collect {''4006381333931''}
           (ex_fetch [ex_product ''Kiwi'' ''123'', ex_product ''Birne'' ''4006381333931'',
                      ex_product ''Apfel'' ''40123456'', ex_product ''Apfel rot'' '' 40123456 '']) 1) =
       Inr [ex_row ''Apfel'' (Some ''40123456'')]"
    by (simp add: main_collect_def intake_categories_ex_fetch intake_def ex_rows_eval init_run_def
        dedupe_def dedupe_step_pair slice_to_def ex_row_def)
  have "(0::int) \<le> 1" by simp
  from collect_rows_nonneg_limit [OF this, of "{''4006381333931''}"
      "ex_fetch [ex_product ''Kiwi'' ''123'', ex_product ''Birne'' ''4006381333931'',
                 ex_product ''Apfel'' ''40123456'', ex_product ''Apfel rot'' '' 40123456 '']"]
  obtain s where "main_collect {''4006381333931''}
           (ex_fetch [ex_product ''Kiwi'' ''123'', ex_product ''Birne'' ''4006381333931'',
                      ex_product ''Apfel'' ''40123456'', ex_product ''Apfel rot'' '' 40123456 '']) 1 = Inr s"
    and "all_rows s = take (nat 1)
        (spec_first_accepted {''4006381333931''}
           (spec_candidate_rows
              (ex_fetch [ex_product ''Kiwi'' ''123'', ex_product ''Birne'' ''4006381333931'',
                         ex_product ''Apfel'' ''40123456'', ex_product ''Apfel rot'' '' 40123456 ''])
              (per_cat 1)))"
    by blast
  with run show ?thesis by simp
qed

text \<open>
  The claim as it was stated, for every limit, fails for a negative one:
  \<^verbatim>\<open>dedupe(all_rows)[:-1]\<close> drops the last row only. With two acceptable records and the
  limit \<open>-1\<close> one row is written, and \<open>1\<close> exceeds \<open>-1\<close>.
\<close>

theorem collect_limit_counterexample:
  "map_sum id (length \<circ> all_rows)
     (main_collect {} (ex_fetch [ex_product ''Apfel'' ''40123456'', ex_product ''Birne'' ''4006381333931''])
        (- 1)) = Inr 1
   \<and> \<not> int 1 \<le> - 1"
  by (simp add: main_collect_def intake_categories_ex_fetch intake_def ex_rows_eval init_run_def
      dedupe_def dedupe_step_pair slice_to_def)

section \<open>The counters at the end of a run\<close>

















lemma per_category_sum_unfold:
  "per_category_sum h s =
     h (stats_cat s (''Getr'' @ [CHR 0xE4] @ ''nke''))
     + h (stats_cat s (''Tiefk'' @ [CHR 0xFC] @ ''hlprodukte''))
     + h (stats_cat s (''Backzutaten''))
     + h (stats_cat s (''Grundnahrungsmittel''))
     + h (stats_cat s (''Pasta und Reis''))
     + h (stats_cat s (''Konserven''))
     + h (stats_cat s (''Obst''))
     + h (stats_cat s (''Gem'' @ [CHR 0xFC] @ ''se''))
     + h (stats_cat s (''Internationale K'' @ [CHR 0xFC] @ ''che''))
     + h (stats_cat s (''Hygiene''))
     + h (stats_cat s (''Drogerie''))
     + h (stats_cat s (''Putzmittel''))
     + h (stats_cat s (''Haushaltswaren''))"
  by (simp add: per_category_sum_def CATEGORIES_def)




section \<open>A record that repeats an identifier of the run\<close>

lemma dedupe_drops_repeat:
  "barcode r \<in> barcode ` set xs \<Longrightarrow> dedupe (xs @ [r] @ ys) = dedupe (xs @ ys)"
proof (induction ys rule: rev_induct)
  case Nil
  then show ?case by (simp add: dedupe_snoc)
next
  case (snoc y ys)
  from snoc.prems have "barcode ` set (xs @ [r] @ ys) = barcode ` set (xs @ ys)" by auto
  moreover have "dedupe (xs @ [r] @ ys @ [y]) = dedupe ((xs @ [r] @ ys) @ [y])" by simp
  moreover have "dedupe (xs @ ys @ [y]) = dedupe ((xs @ ys) @ [y])" by simp
  ultimately show ?case using snoc.IH [OF snoc.prems] by (simp only: dedupe_snoc)
qed

text \<open>
  C5, as amended. A fetched record with a valid identifier that is not in the snapshot
  and that equals the identifier of a row accepted earlier in the run is not checked
  against those rows when it is processed: its row is appended to the accepted rows and
  the per-category and the aggregate counter of new rows each go up by one. The only
  check within the run is \<^verbatim>\<open>dedupe\<close> after all categories: whatever is accepted later,
  the appended row adds nothing to the deduplicated rows.
\<close>

theorem duplicate_accepted_at_intake:
  "product_to_row p (Some c) = Some r \<Longrightarrow> \<not> known existing r \<Longrightarrow>
   barcode r \<in> barcode ` set (all_rows s) \<Longrightarrow>
     intake existing c s p =
       Inr (s\<lparr> all_rows := all_rows s @ [r],
               stats_cat := (stats_cat s)(c := (stats_cat s c)\<lparr> new := new (stats_cat s c) + 1 \<rparr>),
               stats_total := (stats_total s)\<lparr> new := new (stats_total s) + 1 \<rparr> \<rparr>)
     \<and> (\<forall>later. dedupe (all_rows s @ [r] @ later) = dedupe (all_rows s @ later))"
proof -
  assume row: "product_to_row p (Some c) = Some r" and unknown: "\<not> known existing r"
    and dup: "barcode r \<in> barcode ` set (all_rows s)"
  from row obtain b where b: "barcode r = Some b" using product_to_row_Some by blast
  with unknown have "b \<notin> existing" by (simp add: known_def)
  with row b have "intake existing c s p =
       Inr (s\<lparr> all_rows := all_rows s @ [r],
               stats_cat := (stats_cat s)(c := (stats_cat s c)\<lparr> new := new (stats_cat s c) + 1 \<rparr>),
               stats_total := (stats_total s)\<lparr> new := new (stats_total s) + 1 \<rparr> \<rparr>)"
    by (simp add: intake_def)
  with dedupe_drops_repeat [OF dup] show ?thesis by blast
qed

theorem duplicate_accepted_at_intake_witness:
  "product_to_row (ex_product ''Apfel rot'' '' 40123456 '') (Some ''Obst'') =
     Some (ex_row ''Apfel rot'' (Some ''40123456''))
   \<and> \<not> known {} (ex_row ''Apfel rot'' (Some ''40123456''))
   \<and> barcode (ex_row ''Apfel rot'' (Some ''40123456''))
       \<in> barcode ` set (all_rows (init_run\<lparr> all_rows := [ex_row ''Apfel'' (Some ''40123456'')] \<rparr>))
   \<and> map_sum id all_rows
        (intake {} ''Obst'' (init_run\<lparr> all_rows := [ex_row ''Apfel'' (Some ''40123456'')] \<rparr>)
           (ex_product ''Apfel rot'' '' 40123456 '')) =
       Inr [ex_row ''Apfel'' (Some ''40123456''), ex_row ''Apfel rot'' (Some ''40123456'')]
   \<and> dedupe ([ex_row ''Apfel'' (Some ''40123456'')] @ [ex_row ''Apfel rot'' (Some ''40123456'')] @ []) =
       dedupe ([ex_row ''Apfel'' (Some ''40123456'')] @ [])"
proof -
  have a: "product_to_row (ex_product ''Apfel rot'' '' 40123456 '') (Some ''Obst'') =
     Some (ex_row ''Apfel rot'' (Some ''40123456''))"
    by (simp add: ex_rows_eval ex_row_def)
  have b: "\<not> known {} (ex_row ''Apfel rot'' (Some ''40123456''))"
    by (simp add: known_def ex_row_def)
  have c: "barcode (ex_row ''Apfel rot'' (Some ''40123456''))
       \<in> barcode ` set (all_rows (init_run\<lparr> all_rows := [ex_row ''Apfel'' (Some ''40123456'')] \<rparr>))"
    by (simp add: ex_row_def)
  from duplicate_accepted_at_intake [OF a b c] a b c show ?thesis by simp
qed

text \<open>
  The claim as it was stated fails: after one record the counter of new rows is 1, after
  a second record with the same identifier it is 2 (aggregate and per category), and
  both rows stand in the accumulated list.
\<close>

theorem duplicate_counted_counterexample:
  "map_sum id (new \<circ> stats_total)
     (intake_products {} ''Obst'' [ex_product ''Apfel'' ''40123456''] init_run) = Inr 1
   \<and> map_sum id (new \<circ> stats_total)
     (intake_products {} ''Obst''
        [ex_product ''Apfel'' ''40123456'', ex_product ''Apfel rot'' '' 40123456 ''] init_run) = Inr 2
   \<and> map_sum id (per_category_sum new)
     (intake_products {} ''Obst''
        [ex_product ''Apfel'' ''40123456'', ex_product ''Apfel rot'' '' 40123456 ''] init_run) = Inr 2
   \<and> map_sum id (map name \<circ> all_rows)
     (intake_products {} ''Obst''
        [ex_product ''Apfel'' ''40123456'', ex_product ''Apfel rot'' '' 40123456 ''] init_run) =
       Inr [''Apfel'', ''Apfel rot'']"
  by (simp add: intake_def ex_rows_eval init_run_def zero_stats_def per_category_sum_unfold)

section \<open>Failures while a row is imported\<close>

lemma create_product_never_HTTPError:
  "fst (create_product api r qu loc w) \<noteq> Inl HTTPError"
  by (auto simp: create_product_def split: prod.splits sum.splits option.splits)

lemma import_rows_skip:
  "create_product api r qu loc w = (Inr None, w1) \<Longrightarrow>
     import_rows api qu loc (r # rs) s w = import_rows api qu loc rs s w1"
  by simp

lemma create_product_returns:
  assumes "\<forall>pl v e. fst (post_products api pl v) = Inl e \<longrightarrow> e = HTTPError"
    and "\<forall>pid bc v e. fst (post_product_barcodes api pid bc v) = Inl e \<longrightarrow> e = HTTPError"
    and "barcode r \<noteq> None"
  shows "\<exists>res w1. create_product api r qu loc w = (Inr res, w1)"
proof -
  let ?pl = "\<lparr> p_name = name r, description = strip (brand r @ '' '' @ quantity r),
               qu_id_stock = qu, qu_id_purchase = qu, location_id = loc, min_stock_amount = 0 \<rparr>"
  obtain a w1 where p1: "post_products api ?pl w = (a, w1)" by (cases "post_products api ?pl w")
  from assms(3) obtain bc where bc: "barcode r = Some bc" by auto
  show ?thesis
  proof (cases a)
    case (Inl e)
    with p1 assms(1) have "e = HTTPError" by (metis fst_conv)
    with p1 Inl show ?thesis by (simp add: create_product_def)
  next
    case (Inr pid)
    obtain b w2 where p2: "post_product_barcodes api pid bc w1 = (b, w2)"
      by (cases "post_product_barcodes api pid bc w1")
    show ?thesis
    proof (cases b)
      case (Inl e)
      with p2 assms(2) have "e = HTTPError" by (metis fst_conv)
      with p1 p2 Inr Inl bc show ?thesis by (simp add: create_product_def)
    next
      case (Inr u)
      with p1 p2 \<open>a = Inr pid\<close> bc show ?thesis by (simp add: create_product_def)
    qed
  qed
qed

lemma import_rows_returns:
  assumes "\<forall>pl v e. fst (post_products api pl v) = Inl e \<longrightarrow> e = HTTPError"
    and "\<forall>pid bc v e. fst (post_product_barcodes api pid bc v) = Inl e \<longrightarrow> e = HTTPError"
  shows "\<forall>r \<in> set rs. barcode r \<noteq> None \<Longrightarrow> \<exists>s' w'. import_rows api qu loc rs s w = (Inr s', w')"
proof (induction rs arbitrary: s w)
  case Nil
  then show ?case by simp
next
  case (Cons r rs)
  then have "barcode r \<noteq> None" and rest: "\<forall>r \<in> set rs. barcode r \<noteq> None" by auto
  from create_product_returns [OF assms this(1)]
  obtain res w1 where cp: "create_product api r qu loc w = (Inr res, w1)" by blast
  show ?case
  proof (cases "res \<noteq> None \<and> res \<noteq> Some 0")
    case True
    with cp Cons.IH [OF rest] show ?thesis by simp
  next
    case False
    with cp Cons.IH [OF rest, of s w1] show ?thesis by auto
  qed
qed

text \<open>
  C7, as amended. A failure of the creation of a catalog entry that is an HTTP error
  (\<^verbatim>\<open>requests.HTTPError\<close>, raised for an error status of either request) is signalled
  by the value \<^verbatim>\<open>None\<close> and never leaves \<^verbatim>\<open>create_product\<close> as an exception: so it is
  when the first request raises it, and when the first request succeeds and the second
  raises it. On \<^verbatim>\<open>None\<close> the import loop leaves the counters as they are, the row is
  not counted as imported, and the loop goes on with the next row. So when the requests
  raise nothing but HTTP errors, the import of any list of rows (each with its barcode)
  runs to its end. Any other exception is not caught: raised by the first or by the
  second request it leaves \<^verbatim>\<open>create_product\<close>, and an exception that leaves
  \<^verbatim>\<open>create_product\<close> ends the import.
\<close>

theorem http_error_is_not_raised:
  "(post_products api
          \<lparr> p_name = name r, description = strip (brand r @ '' '' @ quantity r),
            qu_id_stock = qu, qu_id_purchase = qu, location_id = loc, min_stock_amount = 0 \<rparr> w
          = (Inl HTTPError, w1)
       \<longrightarrow> create_product api r qu loc w = (Inr None, w1))
   \<and> (post_products api
          \<lparr> p_name = name r, description = strip (brand r @ '' '' @ quantity r),
            qu_id_stock = qu, qu_id_purchase = qu, location_id = loc, min_stock_amount = 0 \<rparr> w
          = (Inr pid, w1)
        \<and> barcode r = Some bc
        \<and> post_product_barcodes api pid bc w1 = (Inl HTTPError, w2)
       \<longrightarrow> create_product api r qu loc w = (Inr None, w2))
   \<and> fst (create_product api r qu loc w) \<noteq> Inl HTTPError
   \<and> (create_product api r qu loc w = (Inr None, w1) \<longrightarrow>
        import_rows api qu loc (r # rs) s w = import_rows api qu loc rs s w1)
   \<and> ((\<forall>pl v e. fst (post_products api pl v) = Inl e \<longrightarrow> e = HTTPError)
        \<and> (\<forall>pid bc v e. fst (post_product_barcodes api pid bc v) = Inl e \<longrightarrow> e = HTTPError)
        \<and> (\<forall>x \<in> set rows. barcode x \<noteq> None)
       \<longrightarrow> (\<exists>s' w'. import_rows api qu loc rows s w = (Inr s', w')))
   \<and> (post_products api
          \<lparr> p_name = name r, description = strip (brand r @ '' '' @ quantity r),
            qu_id_stock = qu, qu_id_purchase = qu, location_id = loc, min_stock_amount = 0 \<rparr> w
          = (Inl e, w1) \<and> e \<noteq> HTTPError
       \<longrightarrow> create_product api r qu loc w = (Inl e, w1))
   \<and> (post_products api
          \<lparr> p_name = name r, description = strip (brand r @ '' '' @ quantity r),
            qu_id_stock = qu, qu_id_purchase = qu, location_id = loc, min_stock_amount = 0 \<rparr> w
          = (Inr pid, w1)
        \<and> barcode r = Some bc
        \<and> post_product_barcodes api pid bc w1 = (Inl e, w2) \<and> e \<noteq> HTTPError
       \<longrightarrow> create_product api r qu loc w = (Inl e, w2))
   \<and> (create_product api r qu loc w = (Inl e, w1) \<longrightarrow>
        import_rows api qu loc (r # rs) s w = (Inl e, w1))"
proof (intro conjI impI)
  assume "post_products api
          \<lparr> p_name = name r, description = strip (brand r @ '' '' @ quantity r),
            qu_id_stock = qu, qu_id_purchase = qu, location_id = loc, min_stock_amount = 0 \<rparr> w
          = (Inl HTTPError, w1)"
  then show "create_product api r qu loc w = (Inr None, w1)"
    by (simp add: create_product_def)
next
  assume "post_products api
          \<lparr> p_name = name r, description = strip (brand r @ '' '' @ quantity r),
            qu_id_stock = qu, qu_id_purchase = qu, location_id = loc, min_stock_amount = 0 \<rparr> w
          = (Inr pid, w1)
        \<and> barcode r = Some bc
        \<and> post_product_barcodes api pid bc w1 = (Inl HTTPError, w2)"
  then show "create_product api r qu loc w = (Inr None, w2)"
    by (simp add: create_product_def)
next
  show "fst (create_product api r qu loc w) \<noteq> Inl HTTPError"
    by (rule create_product_never_HTTPError)
next
  assume "create_product api r qu loc w = (Inr None, w1)"
  then show "import_rows api qu loc (r # rs) s w = import_rows api qu loc rs s w1"
    by (rule import_rows_skip)
next
  assume "(\<forall>pl v e. fst (post_products api pl v) = Inl e \<longrightarrow> e = HTTPError)
        \<and> (\<forall>pid bc v e. fst (post_product_barcodes api pid bc v) = Inl e \<longrightarrow> e = HTTPError)
        \<and> (\<forall>x \<in> set rows. barcode x \<noteq> None)"
  then show "\<exists>s' w'. import_rows api qu loc rows s w = (Inr s', w')"
    using import_rows_returns [of api rows qu loc s w] by blast
next
  assume "post_products api
          \<lparr> p_name = name r, description = strip (brand r @ '' '' @ quantity r),
            qu_id_stock = qu, qu_id_purchase = qu, location_id = loc, min_stock_amount = 0 \<rparr> w
          = (Inl e, w1) \<and> e \<noteq> HTTPError"
  then show "create_product api r qu loc w = (Inl e, w1)"
    by (simp add: create_product_def)
next
  assume "post_products api
          \<lparr> p_name = name r, description = strip (brand r @ '' '' @ quantity r),
            qu_id_stock = qu, qu_id_purchase = qu, location_id = loc, min_stock_amount = 0 \<rparr> w
          = (Inr pid, w1)
        \<and> barcode r = Some bc
        \<and> post_product_barcodes api pid bc w1 = (Inl e, w2) \<and> e \<noteq> HTTPError"
  then show "create_product api r qu loc w = (Inl e, w2)"
    by (simp add: create_product_def)
next
  assume "create_product api r qu loc w = (Inl e, w1)"
  then show "import_rows api qu loc (r # rs) s w = (Inl e, w1)"
    by simp
qed

theorem http_error_is_not_raised_witness:
  "create_product (ex_api (Inl HTTPError) [] HTTPError) (ex_row ''Apfel'' (Some ''40123456'')) 1 2 [] =
     (Inr None, [])
   \<and> create_product (ex_api (Inr 7) ''40123456'' HTTPError) (ex_row ''Apfel'' (Some ''40123456'')) 1 2 [] =
     (Inr None, [''Apfel''])
   \<and> import_rows (ex_api (Inr 7) ''40123456'' HTTPError) 1 2
        [ex_row ''Apfel'' (Some ''40123456''), ex_row ''Birne'' (Some ''4006381333931'')] init_run [] =
       import_rows (ex_api (Inr 7) ''40123456'' HTTPError) 1 2
        [ex_row ''Birne'' (Some ''4006381333931'')] init_run [''Apfel'']
   \<and> (\<exists>s' w'. import_rows (ex_api (Inr 7) ''40123456'' HTTPError) 1 2
        [ex_row ''Apfel'' (Some ''40123456''), ex_row ''Birne'' (Some ''4006381333931'')] init_run [] =
       (Inr s', w'))
   \<and> map_sum id (imported \<circ> stats_total)
        (fst (import_rows (ex_api (Inr 7) ''40123456'' HTTPError) 1 2
           [ex_row ''Apfel'' (Some ''40123456''), ex_row ''Birne'' (Some ''4006381333931'')] init_run []))
       = Inr 1
   \<and> map_sum id (imported \<circ> stats_total)
        (fst (import_rows (ex_api (Inl HTTPError) [] HTTPError) 1 2
           [ex_row ''Apfel'' (Some ''40123456''), ex_row ''Birne'' (Some ''4006381333931'')] init_run []))
       = Inr 0"
proof -
  let ?api = "ex_api (Inr 7) ''40123456'' HTTPError"
  let ?refuse = "ex_api (Inl HTTPError) [] HTTPError"
  let ?r = "ex_row ''Apfel'' (Some ''40123456'')"
  let ?rows = "[ex_row ''Apfel'' (Some ''40123456''), ex_row ''Birne'' (Some ''4006381333931'')]"
  have first: "post_products ?refuse
      \<lparr> p_name = name ?r, description = strip (brand ?r @ '' '' @ quantity ?r),
        qu_id_stock = 1, qu_id_purchase = 1, location_id = 2, min_stock_amount = 0 \<rparr> []
      = (Inl HTTPError, [])"
    by (simp add: ex_api_def)
  have second: "post_products ?api
      \<lparr> p_name = name ?r, description = strip (brand ?r @ '' '' @ quantity ?r),
        qu_id_stock = 1, qu_id_purchase = 1, location_id = 2, min_stock_amount = 0 \<rparr> []
      = (Inr 7, [''Apfel''])
      \<and> barcode ?r = Some ''40123456''
      \<and> post_product_barcodes ?api 7 ''40123456'' [''Apfel''] = (Inl HTTPError, [''Apfel''])"
    by (simp add: ex_api_def ex_row_def)
  have only_http: "(\<forall>pl v e. fst (post_products ?api pl v) = Inl e \<longrightarrow> e = HTTPError)
        \<and> (\<forall>pid bc v e. fst (post_product_barcodes ?api pid bc v) = Inl e \<longrightarrow> e = HTTPError)
        \<and> (\<forall>x \<in> set ?rows. barcode x \<noteq> None)"
    by (simp add: ex_api_def ex_row_def)
  have count: "map_sum id (imported \<circ> stats_total) (fst (import_rows ?api 1 2 ?rows init_run [])) = Inr 1"
    by (simp add: create_product_def ex_api_def ex_row_def init_run_def zero_stats_def)
  have none: "map_sum id (imported \<circ> stats_total) (fst (import_rows ?refuse 1 2 ?rows init_run [])) = Inr 0"
    by (simp add: create_product_def ex_api_def ex_row_def init_run_def zero_stats_def)
  have a: "create_product ?refuse ?r 1 2 [] = (Inr None, [])"
    using http_error_is_not_raised
      [where api = ?refuse and r = ?r and qu = 1 and loc = 2 and w = "[]" and ?w1.0 = "[]"]
      first by blast
  have b: "create_product ?api ?r 1 2 [] = (Inr None, [''Apfel''])"
    using http_error_is_not_raised
      [where api = ?api and r = ?r and qu = 1 and loc = 2 and w = "[]" and ?w1.0 = "[''Apfel'']"
         and pid = 7 and bc = "''40123456''" and ?w2.0 = "[''Apfel'']"]
      second by blast
  from http_error_is_not_raised
    [where api = ?api and r = ?r and qu = 1 and loc = 2 and w = "[]" and ?w1.0 = "[''Apfel'']"
       and rs = "[ex_row ''Birne'' (Some ''4006381333931'')]" and s = init_run and rows = ?rows]
    b only_http
  have "import_rows ?api 1 2 ?rows init_run [] =
          import_rows ?api 1 2 [ex_row ''Birne'' (Some ''4006381333931'')] init_run [''Apfel'']"
    and "\<exists>s' w'. import_rows ?api 1 2 ?rows init_run [] = (Inr s', w')"
    by blast+
  with a b count none show ?thesis by blast
qed

text \<open>
  The claim as it was stated, for any failure, fails for an exception that is not an
  HTTP error (no connection, a timeout, an answer that is not the expected JSON): it
  leaves \<^verbatim>\<open>create_product\<close>, whether the first or the second request raises it, and
  ends the run.
\<close>

theorem other_exception_counterexample:
  "fst (create_product (ex_api (Inl OtherException) [] HTTPError)
          (ex_row ''Apfel'' (Some ''40123456'')) 1 2 []) = Inl OtherException
   \<and> fst (create_product (ex_api (Inr 7) ''40123456'' OtherException)
          (ex_row ''Apfel'' (Some ''40123456'')) 1 2 []) = Inl OtherException
   \<and> fst (main (ex_api (Inl OtherException) [] HTTPError) {}
            (ex_fetch [ex_product ''Apfel'' ''40123456'', ex_product ''Birne'' ''4006381333931''])
            200 True []) = Inl OtherException"
  by (simp add: main_def main_import_def main_collect_def intake_categories_ex_fetch intake_def
      ex_rows_eval init_run_def zero_stats_def dedupe_def dedupe_step_pair slice_to_def
      ensure_unit_def ensure_location_def create_product_def ex_api_def ex_row_def)

section \<open>A product created without its barcode\<close>

text \<open>
  C10. When the request that creates the product succeeds and the request that attaches
  the barcode then fails with an HTTP error, \<^verbatim>\<open>create_product\<close> returns \<^verbatim>\<open>None\<close>, the value
  it also returns when no product was created, and the id of the product is dropped.
  The import loop goes on with the counters unchanged, and with the server in the state
  after both requests: the product stays on the server and nothing reports it.
\<close>

theorem orphaned_product_not_reported:
  "post_products api
     \<lparr> p_name = name r, description = strip (brand r @ '' '' @ quantity r),
       qu_id_stock = qu, qu_id_purchase = qu, location_id = loc, min_stock_amount = 0 \<rparr> w
     = (Inr pid, w1) \<Longrightarrow>
   barcode r = Some bc \<Longrightarrow>
   post_product_barcodes api pid bc w1 = (Inl HTTPError, w2) \<Longrightarrow>
     create_product api r qu loc w = (Inr None, w2)
     \<and> import_rows api qu loc (r # rs) s w = import_rows api qu loc rs s w2
     \<and> import_rows api qu loc [r] s w = (Inr s, w2)"
  by (simp add: create_product_def)

theorem orphaned_product_not_reported_witness:
  "post_products (ex_api (Inr 7) ''40123456'' HTTPError)
     \<lparr> p_name = name (ex_row ''Apfel'' (Some ''40123456'')),
       description = strip (brand (ex_row ''Apfel'' (Some ''40123456'')) @ '' '' @
                            quantity (ex_row ''Apfel'' (Some ''40123456''))),
       qu_id_stock = 1, qu_id_purchase = 1, location_id = 2, min_stock_amount = 0 \<rparr> []
     = (Inr 7, [''Apfel''])
   \<and> barcode (ex_row ''Apfel'' (Some ''40123456'')) = Some ''40123456''
   \<and> post_product_barcodes (ex_api (Inr 7) ''40123456'' HTTPError) 7 ''40123456'' [''Apfel'']
       = (Inl HTTPError, [''Apfel''])
   \<and> create_product (ex_api (Inr 7) ''40123456'' HTTPError) (ex_row ''Apfel'' (Some ''40123456'')) 1 2 []
       = (Inr None, [''Apfel''])
   \<and> import_rows (ex_api (Inr 7) ''40123456'' HTTPError) 1 2 [ex_row ''Apfel'' (Some ''40123456'')]
        init_run [] = (Inr init_run, [''Apfel''])"
proof -
  let ?api = "ex_api (Inr 7) ''40123456'' HTTPError"
  let ?r = "ex_row ''Apfel'' (Some ''40123456'')"
  have a: "post_products ?api
     \<lparr> p_name = name ?r, description = strip (brand ?r @ '' '' @ quantity ?r),
       qu_id_stock = 1, qu_id_purchase = 1, location_id = 2, min_stock_amount = 0 \<rparr> []
     = (Inr 7, [''Apfel''])"
    by (simp add: ex_api_def ex_row_def)
  have b: "barcode ?r = Some ''40123456''" by (simp add: ex_row_def)
  have c: "post_product_barcodes ?api 7 ''40123456'' [''Apfel''] = (Inl HTTPError, [''Apfel''])"
    by (simp add: ex_api_def)
  from orphaned_product_not_reported [OF a b c, of "[]" init_run] a b c show ?thesis by simp
qed

section \<open>Name resolution\<close>


lemma strip_idem: "strip (strip s) = strip s"
proof -
  let ?t = "dropWhile isspace s"
  let ?u = "rev (dropWhile isspace (rev ?t))"
  have u: "strip s = ?u" by (simp add: strip_def)
  have split_t: "?t = ?u @ rev (takeWhile isspace (rev ?t))"
  proof -
    have "?u @ rev (takeWhile isspace (rev ?t)) =
        rev (takeWhile isspace (rev ?t) @ dropWhile isspace (rev ?t))"
      by (simp only: rev_append)
    also have "\<dots> = rev (rev ?t)" by (simp only: takeWhile_dropWhile_id)
    also have "\<dots> = ?t" by (simp only: rev_rev_ident)
    finally have "?u @ rev (takeWhile isspace (rev ?t)) = ?t" .
    then show ?thesis by (rule sym)
  qed
  have front: "dropWhile isspace ?u = ?u"
  proof (cases "?u = []")
    case True
    then show ?thesis by (simp only: dropWhile.simps)
  next
    case False
    with split_t have hd_eq: "hd ?u = hd ?t" by (metis hd_append2)
    have "?t \<noteq> []"
    proof
      assume "?t = []"
      then have "?u = []" by (simp only: rev.simps dropWhile.simps)
      with False show False by contradiction
    qed
    then have "\<not> isspace (hd ?t)" by (rule hd_dropWhile)
    with hd_eq have "\<not> isspace (hd ?u)" by metis
    then show ?thesis by (simp only: dropWhile_eq_self_iff) simp
  qed
  have "strip ?u = rev (dropWhile isspace (rev (dropWhile isspace ?u)))" by (simp add: strip_def)
  also have "\<dots> = rev (dropWhile isspace (rev ?u))" by (simp only: front)
  also have "\<dots> = ?u" by simp
  finally show ?thesis using u by simp
qed

lemma normalize_name_nonempty: "normalize_name p \<noteq> []"
  by (simp add: normalize_name_def Let_def)

lemma normalize_name_of_name:
  "strip (or_str (py_or (product_name_de p) (product_name p)) []) \<noteq> [] \<Longrightarrow>
     normalize_name p = strip (or_str (py_or (product_name_de p) (product_name p)) [])"
  by (simp add: normalize_name_def Let_def)

lemma normalize_name_no_tags:
  "strip (or_str (py_or (product_name_de p) (product_name p)) []) = [] \<Longrightarrow>
   categories_tags p = None \<or> categories_tags p = Some [] \<Longrightarrow>
     normalize_name p = ''Unbenanntes Produkt''"
  by (auto simp: normalize_name_def Let_def)

lemma strip_placeholder: "strip ''Unbenanntes Produkt'' = ''Unbenanntes Produkt''"
  by (simp add: strip_def isspace_def)

lemma title_examples:
  "title ''plant based'' = ''Plant Based''"
  "title (''k'' @ [CHR 0xE4] @ ''se'') = ''K'' @ [CHR 0xE4] @ ''se''"
  "title ([CHR 0xD6] @ ''LE'') = [CHR 0xD6] @ ''le''"
  "title ([CHR 0xDF]) = ''Ss''"
  "title (''l'' @ [CHR 0x27] @ ''eau'') = ''L'' @ [CHR 0x27] @ ''Eau''"
  by (simp_all add: title_def title_char_def lower_char_def iscased_def upper_letters_def
      lower_letters_def)

lemma ex_tagged_eval:
  "normalize_name (ex_tagged ''en:-foo'') = '' Foo''"
  "normalize_name (ex_tagged ''en:plant-based-foods'') = ''Plant Based Foods''"
  by (simp_all add: normalize_name_def ex_tagged_def py_or_def strip_def isspace_def title_def
      replace_def title_char_def lower_char_def iscased_def upper_letters_def lower_letters_def)

text \<open>
  C9, as amended. Name resolution reproduces every resolved name that has no leading
  or trailing whitespace: put back as the localized name of any record, it is resolved
  to itself. Every name resolved from the localized or the generic name is of that
  kind, and so is the placeholder of a record without category tags. A name made from
  a category tag is not trimmed.
\<close>

theorem name_resolution_idempotent_when_trimmed:
  "(strip (normalize_name p) = normalize_name p \<longrightarrow>
      normalize_name (q\<lparr> product_name_de := Some (normalize_name p) \<rparr>) = normalize_name p)
   \<and> (strip (or_str (py_or (product_name_de p) (product_name p)) []) \<noteq> []
        \<or> categories_tags p = None \<or> categories_tags p = Some [] \<longrightarrow>
      strip (normalize_name p) = normalize_name p)"
proof (intro conjI impI)
  assume trimmed: "strip (normalize_name p) = normalize_name p"
  let ?q = "q\<lparr> product_name_de := Some (normalize_name p) \<rparr>"
  have "or_str (py_or (product_name_de ?q) (product_name ?q)) [] = normalize_name p"
    using normalize_name_nonempty [of p] by (simp add: py_or_def)
  with trimmed normalize_name_nonempty [of p]
  have "strip (or_str (py_or (product_name_de ?q) (product_name ?q)) []) \<noteq> []" by simp
  from normalize_name_of_name [OF this] trimmed
  show "normalize_name ?q = normalize_name p"
    using \<open>or_str (py_or (product_name_de ?q) (product_name ?q)) [] = normalize_name p\<close> by simp
next
  assume src: "strip (or_str (py_or (product_name_de p) (product_name p)) []) \<noteq> []
        \<or> categories_tags p = None \<or> categories_tags p = Some []"
  show "strip (normalize_name p) = normalize_name p"
  proof (cases "strip (or_str (py_or (product_name_de p) (product_name p)) []) \<noteq> []")
    case True
    from normalize_name_of_name [OF this] show ?thesis by (simp add: strip_idem)
  next
    case False
    with src have "categories_tags p = None \<or> categories_tags p = Some []" by blast
    with False normalize_name_no_tags [of p] show ?thesis by (simp add: strip_placeholder)
  qed
qed

theorem name_resolution_idempotent_when_trimmed_witness:
  "strip (normalize_name (ex_tagged ''en:plant-based-foods'')) = normalize_name (ex_tagged ''en:plant-based-foods'')
   \<and> normalize_name ((ex_product ''Apfel'' ''40123456'')
        \<lparr> product_name_de := Some (normalize_name (ex_tagged ''en:plant-based-foods'')) \<rparr>) = ''Plant Based Foods''
   \<and> strip (or_str (py_or (product_name_de (ex_product '' Apfel '' ''40123456''))
                          (product_name (ex_product '' Apfel '' ''40123456''))) []) \<noteq> []
   \<and> strip (normalize_name (ex_product '' Apfel '' ''40123456'')) = normalize_name (ex_product '' Apfel '' ''40123456'')
   \<and> normalize_name (ex_product '' Apfel '' ''40123456'') = ''Apfel''"
proof -
  have a: "strip (normalize_name (ex_tagged ''en:plant-based-foods'')) =
      normalize_name (ex_tagged ''en:plant-based-foods'')"
    by (simp add: ex_tagged_eval strip_def isspace_def)
  have b: "strip (or_str (py_or (product_name_de (ex_product '' Apfel '' ''40123456''))
                          (product_name (ex_product '' Apfel '' ''40123456''))) []) \<noteq> []"
    by (simp add: ex_product_def py_or_def strip_def isspace_def)
  have c: "normalize_name (ex_product '' Apfel '' ''40123456'') = ''Apfel''"
    by (simp add: normalize_name_def ex_product_def py_or_def strip_def isspace_def)
  from name_resolution_idempotent_when_trimmed
      [of "ex_tagged ''en:plant-based-foods''" "ex_product ''Apfel'' ''40123456''"]
    name_resolution_idempotent_when_trimmed [of "ex_product '' Apfel '' ''40123456''"]
    a b c
  show ?thesis by (simp add: ex_tagged_eval)
qed

text \<open>
  The claim as it was stated, for every record, fails for a name made from a tag: the
  tag \<^verbatim>\<open>en:-foo\<close> gives the name \<^verbatim>\<open>" Foo"\<close> with a leading space, and that name, put back
  as the localized name, is resolved to \<^verbatim>\<open>"Foo"\<close>.
\<close>

theorem tag_name_not_reproduced_counterexample:
  "normalize_name (ex_tagged ''en:-foo'') = '' Foo''
   \<and> normalize_name ((ex_tagged ''en:-foo'')\<lparr> product_name_de := Some (normalize_name (ex_tagged ''en:-foo'')) \<rparr>)
       = ''Foo''"
  by (simp add: ex_tagged_eval) (simp add: normalize_name_def ex_tagged_def py_or_def strip_def isspace_def)

text \<open>
  C3. The program evaluated where it departs from the claim: a localized name of one
  space is true for \<^verbatim>\<open>or\<close>, so the generic name \<^verbatim>\<open>Milch\<close> is never looked at; the name
  is trimmed to the empty string and the resolution goes on to the tag, or to the
  placeholder. With an empty localized name the generic name is chosen.
\<close>

theorem whitespace_localized_name_blocks_generic:
  "normalize_name \<lparr> product_name_de = Some '' '', product_name = Some ''Milch'',
                    categories_tags = None, code = Some ''40123456'', brands = None,
                    stores = None, quantity = None \<rparr> = ''Unbenanntes Produkt''
   \<and> normalize_name \<lparr> product_name_de = Some '' '', product_name = Some ''Milch'',
                    categories_tags = Some [''en:plant-based-foods''], code = Some ''40123456'',
                    brands = None, stores = None, quantity = None \<rparr> = ''Plant Based Foods''
   \<and> normalize_name \<lparr> product_name_de = Some [], product_name = Some ''Milch'',
                    categories_tags = None, code = Some ''40123456'', brands = None,
                    stores = None, quantity = None \<rparr> = ''Milch''"
  by (simp add: normalize_name_def py_or_def strip_def isspace_def title_def
      replace_def title_char_def lower_char_def iscased_def upper_letters_def lower_letters_def)

end
